theory Spec2Isabelle
  imports Main "HOL-Library.Word"
begin

section \<open>Shared data\<close>

type_synonym byte = "8 word"
type_synonym bytes = "byte list"
type_synonym session_id = string

text \<open>
  A Python dictionary with string keys and string values, as the JSON objects of the
  product search and the argument mapping of a function call. A value is truthy when it
  is a non-empty string.
\<close>

type_synonym pydict = "(string \<times> string) list"

definition dict_get :: "pydict \<Rightarrow> string \<Rightarrow> string option" where
  "dict_get d k = map_of d k"

text \<open>A Python call either returns a value or raises; the exception carries its message.\<close>

datatype 'a outcome = Returns 'a | Raises string

section \<open>utils.py\<close>

text \<open>Decimal rendering of a natural number, as \<^verbatim>\<open>str(n)\<close> and f-string interpolation.\<close>

definition digit_char :: "nat \<Rightarrow> char" where
  "digit_char n = char_of (48 + n)"

function str_nat :: "nat \<Rightarrow> string" where
  "str_nat n = (if n < 10 then [digit_char n] else str_nat (n div 10) @ [digit_char (n mod 10)])"
  by pat_completeness auto
termination
  by (relation "measure (\<lambda>n. n)") auto

declare str_nat.simps [simp del]

text \<open>
  \<^verbatim>\<open>f"${random.randint(999, 9999)/100:.2f}"\<close>: the drawn number \<open>n\<close> printed as dollars
  with two decimals. The draw is an argument of the model.
\<close>

definition format_price :: "nat \<Rightarrow> string" where
  "format_price n = ''$'' @ str_nat (n div 100) @ ''.'' @ [digit_char (n mod 100 div 10), digit_char (n mod 10)]"

record product =
  p_id :: string
  p_image_url :: string
  p_name :: string
  p_description :: string
  p_price :: string
  p_aisle :: string

text \<open>
  \<^verbatim>\<open>normalize_product(product, query=None)\<close>. \<open>rnd\<close> is the value drawn by
  \<^verbatim>\<open>random.randint(999, 9999)\<close>, which Python draws on every call because the default of
  \<^verbatim>\<open>dict.get\<close> is evaluated before the lookup.
\<close>

definition normalize_product :: "nat \<Rightarrow> pydict \<Rightarrow> string option \<Rightarrow> product" where
  "normalize_product rnd product query =
     \<lparr> p_id = (case dict_get product ''id'' of
                  Some v \<Rightarrow> (if v \<noteq> [] then v
                             else (case dict_get product ''productid'' of Some w \<Rightarrow> w | None \<Rightarrow> []))
                | None \<Rightarrow> (case dict_get product ''productid'' of Some w \<Rightarrow> w | None \<Rightarrow> [])),
       p_image_url = (case dict_get product ''image_url'' of Some v \<Rightarrow> v | None \<Rightarrow> []),
       p_name = (case dict_get product ''name'' of
                  Some v \<Rightarrow> v
                | None \<Rightarrow> ''Product '' @
                    (case dict_get product ''id'' of
                       Some v \<Rightarrow> v
                     | None \<Rightarrow> (case dict_get product ''productid'' of Some w \<Rightarrow> w | None \<Rightarrow> []))),
       p_description = (case dict_get product ''description'' of
                  Some v \<Rightarrow> v
                | None \<Rightarrow> ''This product matches your '' @
                    (case query of Some q \<Rightarrow> (if q \<noteq> [] then q else ''image'') | None \<Rightarrow> ''image'')
                    @ '' search''),
       p_price = (case dict_get product ''price'' of Some v \<Rightarrow> v | None \<Rightarrow> format_price rnd),
       p_aisle = (case dict_get product ''aisle'' of Some v \<Rightarrow> v | None \<Rightarrow> ''Unknown'') \<rparr>"

section \<open>gemini\_live2\_service.py: GeminiLive2Service\<close>

text \<open>
  One entry of \<^verbatim>\<open>self.sessions\<close>. \<open>l2_sink\<close> stands for the pair of keys
  \<^verbatim>\<open>"socketio"\<close> and \<^verbatim>\<open>"client_sid"\<close>, which \<^verbatim>\<open>set_socketio\<close> writes together:
  \<open>None\<close> while both hold Python's \<^verbatim>\<open>None\<close>, \<open>Some sid\<close> once a client is attached.
\<close>

record live2_session =
  l2_audio :: "bytes list"
  l2_active :: bool
  l2_sink :: "string option"

text \<open>
  The service object. \<open>l2_loop\<close> says whether \<^verbatim>\<open>self.loop\<close> is set; \<open>l2_submitted\<close>
  lists the \<^verbatim>\<open>out_queue.put\<close> coroutines handed to the event loop by
  \<^verbatim>\<open>asyncio.run_coroutine_threadsafe\<close>, which only schedules them.
\<close>

record live2_service =
  l2_sessions :: "session_id \<rightharpoonup> live2_session"
  l2_loop :: bool
  l2_submitted :: "(session_id \<times> bytes) list"

datatype live2_reply = L2Status string | L2Error string

definition GeminiLive2Service_create_session :: "session_id \<Rightarrow> live2_service \<Rightarrow> session_id \<times> live2_service" where
  "GeminiLive2Service_create_session fresh s =
     (fresh, s\<lparr>l2_sessions := (l2_sessions s)(fresh \<mapsto> \<lparr>l2_audio = [], l2_active = True, l2_sink = None\<rparr>)\<rparr>)"

definition handle_audio_chunk :: "live2_service \<Rightarrow> session_id \<Rightarrow> bytes \<Rightarrow> live2_service \<times> live2_reply" where
  "handle_audio_chunk s sid pcm_bytes =
     (case l2_sessions s sid of
        None \<Rightarrow> (s, L2Error ''Invalid session'')
      | Some session \<Rightarrow>
          if \<not> l2_active session then (s, L2Error ''Invalid session'')
          else
            let s1 = (if l2_loop s then s\<lparr>l2_submitted := l2_submitted s @ [(sid, pcm_bytes)]\<rparr> else s)
            in (s1\<lparr>l2_sessions := (l2_sessions s1)(sid \<mapsto> session\<lparr>l2_audio := l2_audio session @ [pcm_bytes]\<rparr>)\<rparr>,
                L2Status ''audio chunk received''))"

definition GeminiLive2Service_end_session :: "live2_service \<Rightarrow> session_id \<Rightarrow> live2_service \<times> bool" where
  "GeminiLive2Service_end_session s sid =
     (case l2_sessions s sid of
        Some session \<Rightarrow> (s\<lparr>l2_sessions := (l2_sessions s)(sid \<mapsto> session\<lparr>l2_active := False\<rparr>)\<rparr>, True)
      | None \<Rightarrow> (s, False))"

section \<open>gemini\_live\_service.py: GeminiLiveService, the registry\<close>

text \<open>
  What the message queue of a session carries: Python's \<^verbatim>\<open>None\<close> (the termination signal
  of \<^verbatim>\<open>end_session\<close>), a single object, which is a text (\<^verbatim>\<open>process_user_message\<close>) or
  an image part with its mime type (\<^verbatim>\<open>handle_video_frame\<close>), or a pair of message and
  frame (\<^verbatim>\<open>process_user_message_socketio\<close>; either component may be \<^verbatim>\<open>None\<close>).
\<close>

datatype content = Text string | ImagePart string bytes

datatype inbound = QNone | QMessage content | QTuple "string option" "string option"

text \<open>
  One entry of \<^verbatim>\<open>self.active_sessions\<close>. \<open>sd_task\<close> says whether \<^verbatim>\<open>"task"\<close> holds a
  task object rather than \<^verbatim>\<open>None\<close>, \<open>sd_gemini_session\<close> likewise for the remote
  connection. \<open>sd_sink\<close> stands for the keys \<^verbatim>\<open>"socketio"\<close> and \<^verbatim>\<open>"client_sid"\<close>, which
  only \<^verbatim>\<open>process_user_message_socketio\<close> writes, both at once: \<open>None\<close> while the keys
  are absent, \<open>Some client_sid\<close> afterwards. The two flags are the keys
  \<^verbatim>\<open>"_function_result_sent"\<close> and \<^verbatim>\<open>"_response_complete_sent"\<close>, read with
  \<^verbatim>\<open>session_data.get\<close>, so an absent key reads as false. The keys \<^verbatim>\<open>"config"\<close> and
  \<^verbatim>\<open>"history"\<close> are left out: no function modelled here uses their values.
\<close>

record session_data =
  sd_message_queue :: "inbound list"
  sd_response_queue :: "bool list"
  sd_connected :: bool
  sd_task :: bool
  sd_gemini_session :: bool
  sd_sink :: "string option"
  sd_function_result_sent :: bool
  sd_response_complete_sent :: bool

text \<open>One entry of \<^verbatim>\<open>self.session_responses\<close>; \<open>re_retrieved\<close> is the optional key \<^verbatim>\<open>"retrieved"\<close>.\<close>

record response_entry =
  re_text :: string
  re_done :: bool
  re_audio :: "string option"
  re_retrieved :: bool

record live_service =
  active_sessions :: "session_id \<rightharpoonup> session_data"
  session_responses :: "session_id \<rightharpoonup> response_entry"

text \<open>The events handed to \<^verbatim>\<open>socketio.emit\<close> for the client of a session.\<close>

datatype event =
    ResponseChunk string
  | FunctionResult string "product list"
  | ResponseComplete string
  | ReceiveAudioChunk string
  | AudioStreamEnd
  | ErrorEvent string

definition new_response_entry :: response_entry where
  "new_response_entry = \<lparr>re_text = [], re_done = False, re_audio = None, re_retrieved = False\<rparr>"

text \<open>
  \<^verbatim>\<open>create_session\<close>: \<open>fresh\<close> is the identifier drawn by \<^verbatim>\<open>uuid.uuid4()\<close> when the caller
  gives none. The background task is created and stored, and the identifier is returned
  at once; the task itself runs later on the event loop.
\<close>

definition GeminiLiveService_create_session ::
  "session_id \<Rightarrow> session_id option \<Rightarrow> live_service \<Rightarrow> session_id \<times> live_service" where
  "GeminiLiveService_create_session fresh session_id svc =
     (let sid = (case session_id of None \<Rightarrow> fresh | Some given \<Rightarrow> given)
      in (sid,
          svc\<lparr>active_sessions := (active_sessions svc)(sid \<mapsto>
                 \<lparr>sd_message_queue = [], sd_response_queue = [], sd_connected = False,
                  sd_task = True, sd_gemini_session = False, sd_sink = None,
                  sd_function_result_sent = False, sd_response_complete_sent = False\<rparr>),
              session_responses := (session_responses svc)(sid \<mapsto> new_response_entry)\<rparr>))"

text \<open>
  The start of \<^verbatim>\<open>_session_background_task\<close>, up to the point where the message loop
  begins: building the configuration may raise, the connection to the remote service
  may raise, or the connection is established.
\<close>

datatype handshake = ConfigFails | ConnectFails | ConnectOk

definition session_background_task_connect :: "handshake \<Rightarrow> live_service \<Rightarrow> session_id \<Rightarrow> live_service" where
  "session_background_task_connect h svc sid =
     (case active_sessions svc sid of
        None \<Rightarrow> svc
      | Some session_data \<Rightarrow>
          (case h of
             ConfigFails \<Rightarrow>
               svc\<lparr>active_sessions := (active_sessions svc)(sid \<mapsto> session_data\<lparr>sd_connected := False\<rparr>)\<rparr>
           | ConnectFails \<Rightarrow>
               svc\<lparr>active_sessions := (active_sessions svc)(sid \<mapsto> session_data\<lparr>sd_connected := False\<rparr>)\<rparr>
           | ConnectOk \<Rightarrow>
               svc\<lparr>active_sessions := (active_sessions svc)(sid \<mapsto>
                     session_data\<lparr>sd_connected := True, sd_gemini_session := True\<rparr>)\<rparr>))"

text \<open>
  \<^verbatim>\<open>process_user_message_socketio\<close>: the new service state, the events emitted and the
  return value (\<open>None\<close> for Python's \<^verbatim>\<open>None\<close>, \<open>Some\<close> for the status dictionary).
\<close>

definition process_user_message_socketio ::
  "live_service \<Rightarrow> session_id \<Rightarrow> string option \<times> string option \<Rightarrow> string
     \<Rightarrow> live_service \<times> event list \<times> string option" where
  "process_user_message_socketio svc sid message_tuple client_sid =
     (case active_sessions svc sid of
        None \<Rightarrow> (svc, [ErrorEvent ''Session not found''], None)
      | Some session_data \<Rightarrow>
          if \<not> sd_connected session_data \<or> \<not> sd_task session_data
          then (svc, [ErrorEvent ''Session not connected''], None)
          else
            (svc\<lparr>active_sessions := (active_sessions svc)(sid \<mapsto>
                   session_data\<lparr>sd_sink := Some client_sid,
                     sd_message_queue := sd_message_queue session_data
                        @ [QTuple (fst message_tuple) (snd message_tuple)]\<rparr>)\<rparr>,
             [], Some ''processing''))"

text \<open>
  The service object as \<^verbatim>\<open>__init__\<close> leaves it. The attribute \<^verbatim>\<open>session_responses\<close> is
  assigned inside the \<^verbatim>\<open>try\<close> block that creates the speech client, after the client:
  when creating the client raises, the attribute does not exist, and the object has the
  registry only. Every access to the missing attribute raises \<^verbatim>\<open>AttributeError\<close>.
\<close>

datatype live_object = Initialised live_service | NoResponseStore "session_id \<rightharpoonup> session_data"

text \<open>
  \<^verbatim>\<open>end_session\<close>. What waiting for the background task does is an argument: the task
  finishes in time, the wait times out (the task is cancelled and the cancellation
  awaited), an exception of class \<^verbatim>\<open>Exception\<close> is raised inside the \<^verbatim>\<open>try\<close> block, or
  the wait raises \<^verbatim>\<open>asyncio.CancelledError\<close>, which is not an \<^verbatim>\<open>Exception\<close> and is caught
  by neither handler, so it leaves the function before anything is deleted. The function
  has no \<^verbatim>\<open>return\<close> with a value, so a normal return gives Python's \<^verbatim>\<open>None\<close>, written
  \<open>Returns None\<close> (\<open>Returns (Some b)\<close> would be a returned boolean). Without the response
  store the membership test on it raises, in the \<^verbatim>\<open>try\<close> block and again in the handler.
\<close>

datatype wait_outcome = TaskFinished | TaskTimedOut | WaitRaises string | WaitCancelled

definition del_if_present :: "('k \<rightharpoonup> 'v) \<Rightarrow> 'k \<Rightarrow> ('k \<rightharpoonup> 'v)" where
  "del_if_present m k = (if m k \<noteq> None then m(k := None) else m)"

definition GeminiLiveService_end_session ::
  "wait_outcome \<Rightarrow> live_object \<Rightarrow> session_id \<Rightarrow> live_object \<times> bool option outcome" where
  "GeminiLiveService_end_session w obj sid =
     (case obj of
        Initialised svc \<Rightarrow>
          (case active_sessions svc sid of
             None \<Rightarrow> (obj, Returns None)
           | Some session_data \<Rightarrow>
               let svc1 = svc\<lparr>active_sessions := (active_sessions svc)(sid \<mapsto>
                            session_data\<lparr>sd_message_queue := sd_message_queue session_data @ [QNone]\<rparr>)\<rparr>
               in (case (if sd_task session_data then w else TaskFinished) of
                     WaitCancelled \<Rightarrow> (Initialised svc1, Raises ''CancelledError'')
                   | WaitRaises e \<Rightarrow>
                       (Initialised
                          (svc1\<lparr>active_sessions := del_if_present (active_sessions svc1) sid,
                                session_responses := del_if_present (session_responses svc1) sid\<rparr>),
                        Returns None)
                   | _ \<Rightarrow>
                       (Initialised
                          (svc1\<lparr>active_sessions := (active_sessions svc1)(sid := None),
                                session_responses := del_if_present (session_responses svc1) sid\<rparr>),
                        Returns None)))
      | NoResponseStore sessions \<Rightarrow>
          (case sessions sid of
             None \<Rightarrow> (obj, Returns None)
           | Some session_data \<Rightarrow>
               let sessions1 = sessions(sid \<mapsto>
                            session_data\<lparr>sd_message_queue := sd_message_queue session_data @ [QNone]\<rparr>)
               in (case (if sd_task session_data then w else TaskFinished) of
                     WaitCancelled \<Rightarrow> (NoResponseStore sessions1, Raises ''CancelledError'')
                   | _ \<Rightarrow> (NoResponseStore (sessions1(sid := None)), Raises ''AttributeError''))))"

definition get_current_response :: "live_object \<Rightarrow> session_id \<Rightarrow> response_entry option outcome" where
  "get_current_response obj sid =
     (case obj of
        Initialised svc \<Rightarrow> Returns (session_responses svc sid)
      | NoResponseStore sessions \<Rightarrow> Raises ''AttributeError'')"

definition clear_response :: "live_object \<Rightarrow> session_id \<Rightarrow> live_object outcome" where
  "clear_response obj sid =
     (case obj of
        Initialised svc \<Rightarrow>
          Returns (Initialised
            (case session_responses svc sid of
               Some r \<Rightarrow>
                 if re_done r
                 then svc\<lparr>session_responses := (session_responses svc)(sid \<mapsto>
                        \<lparr>re_text = [], re_done = False, re_audio = None, re_retrieved = True\<rparr>)\<rparr>
                 else svc
             | None \<Rightarrow> svc))
      | NoResponseStore sessions \<Rightarrow> Raises ''AttributeError'')"

text \<open>
  The first statement of the message loop after the termination test, when the
  background task has taken a message from the queue:
  \<^verbatim>\<open>self.session_responses[session_id] = {"text": "", "done": False, "audio": None}\<close>.
\<close>

definition begin_response :: "live_service \<Rightarrow> session_id \<Rightarrow> live_service" where
  "begin_response svc sid = svc\<lparr>session_responses := (session_responses svc)(sid \<mapsto> new_response_entry)\<rparr>"

section \<open>app.py: the response polling endpoint\<close>

datatype http_body = BodyResponse response_entry | BodyProcessing | BodyServerError

text \<open>
  \<^verbatim>\<open>get_live_response\<close>: the service object afterwards, the HTTP status and the body. A
  stored response is a dictionary with at least three keys, hence truthy. The route has
  no handler of its own, so an exception is answered by the framework with status 500.
\<close>

definition get_live_response :: "live_object \<Rightarrow> session_id \<Rightarrow> live_object \<times> nat \<times> http_body" where
  "get_live_response obj sid =
     (case get_current_response obj sid of
        Raises e \<Rightarrow> (obj, 500, BodyServerError)
      | Returns None \<Rightarrow> (obj, 202, BodyProcessing)
      | Returns (Some response_content) \<Rightarrow>
          (case clear_response obj sid of
             Raises e \<Rightarrow> (obj, 500, BodyServerError)
           | Returns obj' \<Rightarrow> (obj', 200, BodyResponse response_content)))"

section \<open>gemini\_live\_service.py: the Tool Executor\<close>

text \<open>
  The HTTP request to the search endpoint is an argument of the model. Either something
  raises inside the \<^verbatim>\<open>try\<close> block (no connection, a body that is not a JSON object, ...),
  or a reply arrives: its status, its text, and the JSON object of its body, of which the
  model keeps the value of the key \<^verbatim>\<open>"results"\<close> (\<open>None\<close> when the key is absent).
\<close>

datatype http_reply = RequestRaises string | HttpReply nat string "pydict list option"

text \<open>
  The dictionary \<^verbatim>\<open>_execute_function\<close> returns: \<^verbatim>\<open>{"error": ...}\<close> or the JSON object of
  the search reply.
\<close>

datatype function_response = FError string | FData "pydict list option"

definition search_request :: "(string \<Rightarrow> http_reply) \<Rightarrow> string \<Rightarrow> function_response outcome" where
  "search_request search query =
     (case search query of
        RequestRaises e \<Rightarrow> Raises e
      | HttpReply status error_text data \<Rightarrow>
          if status = 200 then Returns (FData data)
          else Returns (FError (''Search failed with status '' @ str_nat status @ '': '' @ error_text)))"

text \<open>\<^verbatim>\<open>_execute_function\<close>; the \<^verbatim>\<open>except\<close> clause turns a raise of the request into a value.\<close>

definition execute_function ::
  "(string \<Rightarrow> http_reply) \<Rightarrow> string \<Rightarrow> pydict \<Rightarrow> function_response outcome" where
  "execute_function search function_name function_args =
     (if function_name = ''search_products'' then
        (case dict_get function_args ''query'' of
           None \<Rightarrow> Returns (FError ''No query provided'')
         | Some query \<Rightarrow>
             if query = [] then Returns (FError ''No query provided'')
             else
               (case search_request search query of
                  Raises e \<Rightarrow> Returns (FError (''Error executing search: '' @ e))
                | Returns data \<Rightarrow> Returns data))
      else Returns (FError (''Unknown function: '' @ function_name)))"

text \<open>
  \<^verbatim>\<open>send_user_input_to_session\<close>, the part that formats the search results for the model:
  at most five products, each reduced to five fields.
\<close>

definition format_search_results :: "pydict list option \<Rightarrow> pydict list" where
  "format_search_results results =
     (case results of
        Some products \<Rightarrow>
          map (\<lambda>product.
                 [(''id'', case dict_get product ''id'' of Some v \<Rightarrow> v | None \<Rightarrow> []),
                  (''name'', case dict_get product ''name'' of Some v \<Rightarrow> v | None \<Rightarrow> []),
                  (''price'', case dict_get product ''price'' of Some v \<Rightarrow> v | None \<Rightarrow> []),
                  (''image_url'', case dict_get product ''image_url'' of Some v \<Rightarrow> v | None \<Rightarrow> []),
                  (''aisle'', case dict_get product ''aisle'' of Some v \<Rightarrow> v | None \<Rightarrow> [])])
              (take 5 products)
      | None \<Rightarrow> [])"

section \<open>gemini\_live\_service.py: streaming synthesized audio\<close>

definition chunk_size :: nat where
  "chunk_size = 4096"

text \<open>
  The loop \<^verbatim>\<open>for i in range(0, len(audio_bytes), chunk_size)\<close> with the slice
  \<^verbatim>\<open>audio_bytes[i:i+chunk_size]\<close>, started at index \<open>i\<close>.
\<close>

function audio_chunks :: "nat \<Rightarrow> bytes \<Rightarrow> bytes list" where
  "audio_chunks i audio_bytes =
     (if i < length audio_bytes
      then take chunk_size (drop i audio_bytes) # audio_chunks (i + chunk_size) audio_bytes
      else [])"
  by pat_completeness auto
termination
  by (relation "measure (\<lambda>(i, audio_bytes). length audio_bytes - i)") (auto simp: chunk_size_def)

declare audio_chunks.simps [simp del]

text \<open>
  The body of the \<^verbatim>\<open>try\<close> block of \<^verbatim>\<open>stream_tts_audio\<close>: the events emitted and whether
  the block raised. \<open>synthesize_speech\<close> is the call to the speech service, \<open>b64encode\<close>
  the library's Base64 encoder; each event carries the Base64 text of one chunk.
\<close>

definition stream_tts_audio_try ::
  "(string \<Rightarrow> bytes outcome) \<Rightarrow> (bytes \<Rightarrow> string) \<Rightarrow> string \<Rightarrow> event list \<times> unit outcome" where
  "stream_tts_audio_try synthesize_speech b64encode text =
     (case synthesize_speech text of
        Raises e \<Rightarrow> ([], Raises e)
      | Returns audio_bytes \<Rightarrow>
          (map (\<lambda>chunk. ReceiveAudioChunk (b64encode chunk)) (audio_chunks 0 audio_bytes)
             @ [AudioStreamEnd],
           Returns ()))"

text \<open>\<^verbatim>\<open>stream_tts_audio\<close>; \<open>tts_client\<close> is \<open>None\<close> when the client could not be created.\<close>

definition stream_tts_audio ::
  "(string \<Rightarrow> bytes outcome) option \<Rightarrow> (bytes \<Rightarrow> string) \<Rightarrow> string \<Rightarrow> event list \<times> unit outcome" where
  "stream_tts_audio tts_client b64encode text =
     (case tts_client of
        None \<Rightarrow> ([], Returns ())
      | Some synthesize_speech \<Rightarrow>
          if text = [] then ([], Returns ())
          else
            (case stream_tts_audio_try synthesize_speech b64encode text of
               (emitted, Raises e) \<Rightarrow> (emitted, Returns ())
             | (emitted, Returns u) \<Rightarrow> (emitted, Returns u)))"

section \<open>gemini\_live\_service.py: the multiplexer\<close>

text \<open>
  A frame of the remote stream, as far as the receive loop looks at it. \<open>r_text\<close> is
  \<open>None\<close> when the attribute is missing or \<^verbatim>\<open>None\<close>; \<open>r_tool_call\<close> holds the list
  \<^verbatim>\<open>tool_call.function_calls\<close> when the frame has a tool call.
\<close>

record function_call =
  fc_id :: string
  fc_name :: string
  fc_args :: pydict

record response =
  r_text :: "string option"
  r_tool_call :: "function_call list option"
  r_end_of_turn :: bool

text \<open>What the task sends on the remote connection.\<close>

datatype remote_send =
    SendInput content
  | SendParts content string bytes
  | SendFunctionResponse string string function_response

text \<open>
  The collaborators outside the repository: the search endpoint, the speech client, the
  Base64 codec of the standard library and the random draws of \<^verbatim>\<open>normalize_product\<close>
  (the draw for the \<open>i\<close>-th product of a result list).
\<close>

record env =
  e_search :: "string \<Rightarrow> http_reply"
  e_tts_client :: "(string \<Rightarrow> bytes outcome) option"
  e_b64encode :: "bytes \<Rightarrow> string"
  e_b64decode :: "string \<Rightarrow> bytes option"
  e_rnd :: "nat \<Rightarrow> nat"

text \<open>
  The state of one pass through the body of the message loop: the session entry, the
  value written to \<^verbatim>\<open>self.session_responses[session_id]\<close> (\<open>None\<close> while nothing has been
  written), the local \<^verbatim>\<open>accumulated_text\<close>, and three logs: the events emitted, the
  messages sent on the remote connection and the calls made to \<^verbatim>\<open>_execute_function\<close>.
\<close>

record turn =
  t_session :: session_data
  t_response :: "response_entry option"
  t_accumulated_text :: string
  t_events :: "event list"
  t_sent :: "remote_send list"
  t_executed :: "(string \<times> pydict) list"

text \<open>
  The test \<^verbatim>\<open>socketio and client_sid\<close> on the values read with \<^verbatim>\<open>get\<close>: true when the
  keys are present and the client id is not the empty string.
\<close>

definition sink_truthy :: "string option \<Rightarrow> bool" where
  "sink_truthy sink = (case sink of None \<Rightarrow> False | Some client_sid \<Rightarrow> client_sid \<noteq> [])"

definition start_turn :: "session_data \<Rightarrow> turn" where
  "start_turn session_data =
     \<lparr>t_session = session_data, t_response = None, t_accumulated_text = [],
      t_events = [], t_sent = [], t_executed = []\<rparr>"

definition emit :: "turn \<Rightarrow> event \<Rightarrow> turn" where
  "emit t e = t\<lparr>t_events := t_events t @ [e]\<rparr>"

definition send :: "turn \<Rightarrow> remote_send \<Rightarrow> turn" where
  "send t m = t\<lparr>t_sent := t_sent t @ [m]\<rparr>"

text \<open>
  Python's \<^verbatim>\<open>str.strip()\<close> on characters below 256: the whitespace characters are
  9 to 13, 28 to 32, 133 and 160.
\<close>

definition is_space :: "char \<Rightarrow> bool" where
  "is_space c =
     (let n = (of_char c :: nat)
      in (9 \<le> n \<and> n \<le> 13) \<or> (28 \<le> n \<and> n \<le> 32) \<or> n = 133 \<or> n = 160)"

definition strip :: "string \<Rightarrow> string" where
  "strip s = rev (dropWhile is_space (rev (dropWhile is_space s)))"

definition enrich :: "env \<Rightarrow> pydict list \<Rightarrow> product list" where
  "enrich env results = map (\<lambda>(i, product). normalize_product (e_rnd env i) product None) (enumerate 0 results)"

text \<open>
  The branch for a frame with a tool call. Indexing an empty list of calls raises. When
  the search returned results and \<^verbatim>\<open>response_complete\<close> has not been sent, the code
  emits through the local variable \<^verbatim>\<open>socketio\<close>, which is bound to an emitter only if the
  session has its sink; otherwise the variable is unbound or \<^verbatim>\<open>None\<close> and the statement
  raises.
\<close>

definition tool_call_branch :: "env \<Rightarrow> turn \<Rightarrow> function_call list \<Rightarrow> turn \<times> bool outcome" where
  "tool_call_branch env t function_calls =
     (case function_calls of
        [] \<Rightarrow> (t, Raises ''list index out of range'')
      | function_call_details # _ \<Rightarrow>
          let function_name = fc_name function_call_details;
              function_args = fc_args function_call_details;
              t1 = t\<lparr>t_executed := t_executed t @ [(function_name, function_args)]\<rparr>
          in (case execute_function (e_search env) function_name function_args of
                Raises e \<Rightarrow> (t1, Raises e)
              | Returns function_response \<Rightarrow>
                  let func_resp = SendFunctionResponse (fc_id function_call_details) function_name function_response
                  in (case (if function_name = ''search_products''
                            then (case function_response of FData (Some results) \<Rightarrow> Some results | _ \<Rightarrow> None)
                            else None) of
                        None \<Rightarrow> (send t1 func_resp, Returns True)
                      | Some results \<Rightarrow>
                          let t2 = (if sd_sink (t_session t1) \<noteq> None
                                    then emit t1 (FunctionResult function_name (enrich env results))
                                    else t1);
                              t3 = t2\<lparr>t_session := (t_session t2)\<lparr>sd_function_result_sent := True\<rparr>\<rparr>
                          in if \<not> sd_response_complete_sent (t_session t3)
                             then (case sd_sink (t_session t3) of
                                     None \<Rightarrow> (t3, Raises ''socketio is not bound to an emitter'')
                                   | Some client_sid \<Rightarrow>
                                       let t4 = emit t3 (ResponseComplete ''Here you go!'');
                                           t5 = t4\<lparr>t_session := (t_session t4)\<lparr>sd_response_complete_sent := True\<rparr>\<rparr>
                                       in (send t5 func_resp, Returns True))
                             else (send t3 func_resp, Returns True))))"

text \<open>The branch for a frame that ends the turn.\<close>

definition end_of_turn_branch :: "turn \<Rightarrow> turn" where
  "end_of_turn_branch t =
     (let stripped = strip (t_accumulated_text t);
          fallback = (stripped = [] \<and> sd_function_result_sent (t_session t));
          final_text = (if fallback then ''Here you go!'' else stripped);
          t1 = (if fallback then t\<lparr>t_session := (t_session t)\<lparr>sd_function_result_sent := False\<rparr>\<rparr> else t)
      in if sd_sink (t_session t1) \<noteq> None then emit t1 (ResponseComplete final_text) else t1)"

text \<open>
  One iteration of the inner loop \<^verbatim>\<open>async for response in session.receive()\<close>. The result
  says whether the loop was left by \<^verbatim>\<open>break\<close> (\<open>Returns True\<close>), goes on (\<open>Returns False\<close>)
  or an exception left it.
\<close>

definition handle_response :: "env \<Rightarrow> turn \<Rightarrow> response \<Rightarrow> turn \<times> bool outcome" where
  "handle_response env t response =
     (let t1 = (case r_text response of
                  None \<Rightarrow> t
                | Some text \<Rightarrow>
                    if text = [] then t
                    else
                      let ta = t\<lparr>t_accumulated_text := t_accumulated_text t @ text\<rparr>
                      in if sd_sink (t_session ta) \<noteq> None then emit ta (ResponseChunk text) else ta)
      in (case r_tool_call response of
            Some function_calls \<Rightarrow> tool_call_branch env t1 function_calls
          | None \<Rightarrow>
              if r_end_of_turn response then (end_of_turn_branch t1, Returns True)
              else (t1, Returns False)))"

text \<open>
  The first step of the loop body on its own, as \<^verbatim>\<open>handle_response\<close> has it: a text
  fragment is appended to \<^verbatim>\<open>accumulated_text\<close> and emitted as a chunk.
\<close>

definition text_part :: "turn \<Rightarrow> response \<Rightarrow> turn" where
  "text_part t response =
     (case r_text response of
        None \<Rightarrow> t
      | Some text \<Rightarrow>
          if text = [] then t
          else
            let ta = t\<lparr>t_accumulated_text := t_accumulated_text t @ text\<rparr>
            in if sd_sink (t_session ta) \<noteq> None then emit ta (ResponseChunk text) else ta)"

fun receive_loop :: "env \<Rightarrow> turn \<Rightarrow> response list \<Rightarrow> turn \<times> unit outcome" where
  "receive_loop env t [] = (t, Returns ())"
| "receive_loop env t (response # rest) =
     (case handle_response env t response of
        (t', Raises e) \<Rightarrow> (t', Raises e)
      | (t', Returns left) \<Rightarrow> if left then (t', Returns ()) else receive_loop env t' rest)"

text \<open>
  The statements after the inner loop, up to the end of the loop body. The last of them
  logs the local variable \<^verbatim>\<open>response\<close>, which is unbound when no frame has been received
  since the task started; \<open>response_bound\<close> says whether one has.
\<close>

datatype turn_exit = Terminate | NextMessage | TaskRaises string

definition finish_turn :: "env \<Rightarrow> bool \<Rightarrow> turn \<Rightarrow> turn \<times> turn_exit" where
  "finish_turn env response_bound t =
     (let t1 = (if sink_truthy (sd_sink (t_session t)) \<and> \<not> sd_response_complete_sent (t_session t)
                then
                  let ta = emit t (ResponseComplete (t_accumulated_text t));
                      tb = ta\<lparr>t_session := (t_session ta)\<lparr>sd_response_complete_sent := True\<rparr>\<rparr>
                  in tb\<lparr>t_events := t_events tb
                         @ fst (stream_tts_audio (e_tts_client env) (e_b64encode env) (t_accumulated_text t))\<rparr>
                else t);
          t2 = t1\<lparr>t_session := (t_session t1)\<lparr>sd_response_complete_sent := False\<rparr>\<rparr>
      in (case t_response t2 of
            None \<Rightarrow> (t2, TaskRaises ''KeyError'')
          | Some entry \<Rightarrow>
              let t3 = t2\<lparr>t_response := Some (entry\<lparr>re_done := True\<rparr>),
                          t_session := (t_session t2)\<lparr>sd_response_queue := sd_response_queue (t_session t2) @ [True]\<rparr>\<rparr>
              in (t3, if response_bound then NextMessage else TaskRaises ''UnboundLocalError'')))"

definition run_turn :: "env \<Rightarrow> bool \<Rightarrow> turn \<Rightarrow> response list \<Rightarrow> turn \<times> turn_exit" where
  "run_turn env response_bound t stream =
     (case receive_loop env t stream of
        (t', Raises e) \<Rightarrow> (t', TaskRaises e)
      | (t', Returns u) \<Rightarrow> finish_turn env (response_bound \<or> stream \<noteq> []) t')"

text \<open>
  The data URL of a frame: \<^verbatim>\<open>frame.split(",", 1)\<close> must give two parts, and the mime type
  is cut out of the header.
\<close>

definition split_once :: "char \<Rightarrow> string \<Rightarrow> (string \<times> string) option" where
  "split_once c s =
     (if c \<in> set s then Some (takeWhile (\<lambda>x. x \<noteq> c) s, tl (dropWhile (\<lambda>x. x \<noteq> c) s)) else None)"

definition frame_mime_type :: "string \<Rightarrow> string" where
  "frame_mime_type header =
     (if CHR '':'' \<in> set header \<and> CHR '';'' \<in> set header
      then takeWhile (\<lambda>x. x \<noteq> CHR '';'')
             (takeWhile (\<lambda>x. x \<noteq> CHR '':'') (tl (dropWhile (\<lambda>x. x \<noteq> CHR '':'') header)))
      else ''image/jpeg'')"

definition parse_frame :: "env \<Rightarrow> string \<Rightarrow> (string \<times> bytes) option" where
  "parse_frame env frame =
     (case split_once CHR '','' frame of
        None \<Rightarrow> None
      | Some (header, encoded) \<Rightarrow>
          (case e_b64decode env encoded of
             None \<Rightarrow> None
           | Some frame_bytes \<Rightarrow> Some (frame_mime_type header, frame_bytes)))"

definition unpack :: "inbound \<Rightarrow> content option \<times> string option" where
  "unpack queued =
     (case queued of
        QNone \<Rightarrow> (None, None)
      | QMessage c \<Rightarrow> (Some c, None)
      | QTuple message frame \<Rightarrow> (map_option Text message, frame))"

text \<open>
  The body of the message loop of \<^verbatim>\<open>_session_background_task\<close> for one dequeued object
  \<open>queued\<close>, with \<open>stream\<close> the frames the remote connection delivers for it. Sending on
  the remote connection is taken to succeed.
\<close>

definition process_message ::
  "env \<Rightarrow> bool \<Rightarrow> session_data \<Rightarrow> inbound \<Rightarrow> response list \<Rightarrow> turn \<times> turn_exit" where
  "process_message env response_bound session_data queued stream =
     (if queued = QNone then (start_turn session_data, Terminate)
      else
        let t = (start_turn session_data)\<lparr>t_response := Some new_response_entry\<rparr>
        in (case unpack queued of
              (None, frame) \<Rightarrow> (t, Terminate)
            | (Some message, frame) \<Rightarrow>
                (case (case frame of None \<Rightarrow> None | Some f \<Rightarrow> if f = [] then None else Some f) of
                   Some f \<Rightarrow>
                     (case parse_frame env f of
                        None \<Rightarrow>
                          (if sink_truthy (sd_sink session_data)
                           then emit t (ResponseComplete ''[Error: Could not process image frame]'')
                           else t,
                           NextMessage)
                      | Some (mime_type, frame_bytes) \<Rightarrow>
                          run_turn env response_bound (send t (SendParts message mime_type frame_bytes)) stream)
                 | None \<Rightarrow> run_turn env response_bound (send t (SendInput message)) stream)))"

fun is_complete :: "event \<Rightarrow> bool" where
  "is_complete (ResponseComplete text) = True"
| "is_complete e = False"

fun is_function_result :: "event \<Rightarrow> bool" where
  "is_function_result (FunctionResult name results) = True"
| "is_function_result e = False"

section \<open>gemini\_live2\_service.py: the receive loop\<close>





section \<open>Audio chunks of the Live2 service\<close>

text \<open>
  C10. On a session that exists and is active, \<^verbatim>\<open>handle_audio_chunk\<close> appends exactly
  the received chunk to that session's audio list, answers "audio chunk received" and
  leaves every other session as it was; on a missing or inactive session it answers
  "Invalid session" and changes nothing.
\<close>

theorem handle_audio_chunk_frame:
  "(l2_sessions s sid = Some session \<and> l2_active session \<longrightarrow>
      snd (handle_audio_chunk s sid pcm) = L2Status ''audio chunk received''
      \<and> l2_sessions (fst (handle_audio_chunk s sid pcm)) sid
          = Some (session\<lparr>l2_audio := l2_audio session @ [pcm]\<rparr>)
      \<and> length (l2_audio (the (l2_sessions (fst (handle_audio_chunk s sid pcm)) sid)))
          = Suc (length (l2_audio session))
      \<and> (\<forall>other. other \<noteq> sid \<longrightarrow>
            l2_sessions (fst (handle_audio_chunk s sid pcm)) other = l2_sessions s other))
   \<and> ((l2_sessions s sid = None \<or> (\<exists>session. l2_sessions s sid = Some session \<and> \<not> l2_active session)) \<longrightarrow>
      handle_audio_chunk s sid pcm = (s, L2Error ''Invalid session''))"
  by (auto simp: handle_audio_chunk_def Let_def)

theorem handle_audio_chunk_frame_witness:
  "snd (handle_audio_chunk
          \<lparr>l2_sessions = [''a'' \<mapsto> \<lparr>l2_audio = [[1, 2]], l2_active = True, l2_sink = None\<rparr>,
                          ''b'' \<mapsto> \<lparr>l2_audio = [], l2_active = False, l2_sink = None\<rparr>],
           l2_loop = True, l2_submitted = []\<rparr> ''a'' [3])
     = L2Status ''audio chunk received''
   \<and> l2_sessions (fst (handle_audio_chunk
          \<lparr>l2_sessions = [''a'' \<mapsto> \<lparr>l2_audio = [[1, 2]], l2_active = True, l2_sink = None\<rparr>,
                          ''b'' \<mapsto> \<lparr>l2_audio = [], l2_active = False, l2_sink = None\<rparr>],
           l2_loop = True, l2_submitted = []\<rparr> ''a'' [3])) ''a''
     = Some \<lparr>l2_audio = [[1, 2], [3]], l2_active = True, l2_sink = None\<rparr>
   \<and> handle_audio_chunk
          \<lparr>l2_sessions = [''a'' \<mapsto> \<lparr>l2_audio = [[1, 2]], l2_active = True, l2_sink = None\<rparr>,
                          ''b'' \<mapsto> \<lparr>l2_audio = [], l2_active = False, l2_sink = None\<rparr>],
           l2_loop = True, l2_submitted = []\<rparr> ''b'' [3]
     = (\<lparr>l2_sessions = [''a'' \<mapsto> \<lparr>l2_audio = [[1, 2]], l2_active = True, l2_sink = None\<rparr>,
                          ''b'' \<mapsto> \<lparr>l2_audio = [], l2_active = False, l2_sink = None\<rparr>],
           l2_loop = True, l2_submitted = []\<rparr>, L2Error ''Invalid session'')"
  using handle_audio_chunk_frame
    [of "\<lparr>l2_sessions = [''a'' \<mapsto> \<lparr>l2_audio = [[1, 2]], l2_active = True, l2_sink = None\<rparr>,
                          ''b'' \<mapsto> \<lparr>l2_audio = [], l2_active = False, l2_sink = None\<rparr>],
           l2_loop = True, l2_submitted = []\<rparr>" "''a''"
        "\<lparr>l2_audio = [[1, 2]], l2_active = True, l2_sink = None\<rparr>" "[3]"]
    handle_audio_chunk_frame
    [of "\<lparr>l2_sessions = [''a'' \<mapsto> \<lparr>l2_audio = [[1, 2]], l2_active = True, l2_sink = None\<rparr>,
                          ''b'' \<mapsto> \<lparr>l2_audio = [], l2_active = False, l2_sink = None\<rparr>],
           l2_loop = True, l2_submitted = []\<rparr>" "''b''" _ "[3]"]
  by simp


section \<open>Ending a session\<close>

text \<open>
  C2 as stated fails: in the Live2 service the second \<^verbatim>\<open>end_session\<close> on the same id
  returns true again and the entry is still in the registry.
\<close>

theorem end_session_twice_counterexample:
  "\<not> (snd (GeminiLive2Service_end_session
             \<lparr>l2_sessions = [''a'' \<mapsto> \<lparr>l2_audio = [], l2_active = True, l2_sink = None\<rparr>],
              l2_loop = True, l2_submitted = []\<rparr> ''a'') = True
      \<and> snd (GeminiLive2Service_end_session
             (fst (GeminiLive2Service_end_session
                \<lparr>l2_sessions = [''a'' \<mapsto> \<lparr>l2_audio = [], l2_active = True, l2_sink = None\<rparr>],
                 l2_loop = True, l2_submitted = []\<rparr> ''a'')) ''a'') = False
      \<and> l2_sessions (fst (GeminiLive2Service_end_session
                \<lparr>l2_sessions = [''a'' \<mapsto> \<lparr>l2_audio = [], l2_active = True, l2_sink = None\<rparr>],
                 l2_loop = True, l2_submitted = []\<rparr> ''a'')) ''a'' = None)"
  by (simp add: GeminiLive2Service_end_session_def)

text \<open>
  When the wait for the background task raises \<^verbatim>\<open>CancelledError\<close>, the Live service's
  \<^verbatim>\<open>end_session\<close> raises and both entries stay.
\<close>

lemma end_session_cancelled_keeps_entries:
  assumes "active_sessions svc sid = Some session_data" and "sd_task session_data"
  shows "\<exists>svc1. GeminiLiveService_end_session WaitCancelled (Initialised svc) sid
            = (Initialised svc1, Raises ''CancelledError'')
          \<and> active_sessions svc1 sid \<noteq> None
          \<and> session_responses svc1 sid = session_responses svc sid"
  using assms by (simp add: GeminiLiveService_end_session_def Let_def)

text \<open>
  C2, amended. In the Live2 service \<^verbatim>\<open>end_session\<close> on a known id returns true and only
  marks the entry inactive, so the entry stays and a second call returns true again and
  changes nothing; it returns false exactly for an id without entry. In the Live
  service, with its response store in place, the first \<^verbatim>\<open>end_session\<close> on a known id
  returns normally and removes the id from the registry and from the response store
  whenever the wait for the background task finishes, times out or raises an
  \<^verbatim>\<open>Exception\<close>; a second call then returns normally and changes nothing.
\<close>

theorem end_session_twice:
  "(l2_sessions s sid = Some session \<longrightarrow>
      GeminiLive2Service_end_session s sid
        = (s\<lparr>l2_sessions := (l2_sessions s)(sid \<mapsto> session\<lparr>l2_active := False\<rparr>)\<rparr>, True)
      \<and> GeminiLive2Service_end_session (fst (GeminiLive2Service_end_session s sid)) sid
        = (fst (GeminiLive2Service_end_session s sid), True))
   \<and> (l2_sessions s sid = None \<longrightarrow> GeminiLive2Service_end_session s sid = (s, False))
   \<and> (active_sessions svc sid = Some session_data \<and> (sd_task session_data \<longrightarrow> w \<noteq> WaitCancelled) \<longrightarrow>
        (\<exists>svc1. GeminiLiveService_end_session w (Initialised svc) sid = (Initialised svc1, Returns None)
           \<and> active_sessions svc1 sid = None
           \<and> session_responses svc1 sid = None
           \<and> GeminiLiveService_end_session w' (Initialised svc1) sid = (Initialised svc1, Returns None)))"
proof -
  have live2_known: "l2_sessions s sid = Some session \<Longrightarrow>
      GeminiLive2Service_end_session s sid
        = (s\<lparr>l2_sessions := (l2_sessions s)(sid \<mapsto> session\<lparr>l2_active := False\<rparr>)\<rparr>, True)"
    by (simp add: GeminiLive2Service_end_session_def)
  have live2_again: "l2_sessions s sid = Some session \<Longrightarrow>
      GeminiLive2Service_end_session (fst (GeminiLive2Service_end_session s sid)) sid
        = (fst (GeminiLive2Service_end_session s sid), True)"
    by (simp add: GeminiLive2Service_end_session_def)
  have live2_unknown: "l2_sessions s sid = None \<Longrightarrow> GeminiLive2Service_end_session s sid = (s, False)"
    by (simp add: GeminiLive2Service_end_session_def)
  have live: "\<exists>svc1. GeminiLiveService_end_session w (Initialised svc) sid = (Initialised svc1, Returns None)
           \<and> active_sessions svc1 sid = None
           \<and> session_responses svc1 sid = None
           \<and> GeminiLiveService_end_session w' (Initialised svc1) sid = (Initialised svc1, Returns None)"
    if known: "active_sessions svc sid = Some session_data"
      and wait: "sd_task session_data \<longrightarrow> w \<noteq> WaitCancelled"
  proof (cases "sd_task session_data")
    case True
    with wait have "w \<noteq> WaitCancelled" by simp
    with known True show ?thesis
      by (cases w) (simp_all add: GeminiLiveService_end_session_def del_if_present_def Let_def)
  next
    case False
    with known show ?thesis
      by (simp add: GeminiLiveService_end_session_def del_if_present_def Let_def)
  qed
  from live2_known live2_again live2_unknown live show ?thesis by blast
qed

theorem end_session_twice_witness:
  "GeminiLive2Service_end_session
      \<lparr>l2_sessions = [''a'' \<mapsto> \<lparr>l2_audio = [], l2_active = True, l2_sink = None\<rparr>],
       l2_loop = True, l2_submitted = []\<rparr> ''a''
     = (\<lparr>l2_sessions = [''a'' \<mapsto> \<lparr>l2_audio = [], l2_active = False, l2_sink = None\<rparr>],
       l2_loop = True, l2_submitted = []\<rparr>, True)
   \<and> GeminiLive2Service_end_session
      \<lparr>l2_sessions = [''a'' \<mapsto> \<lparr>l2_audio = [], l2_active = True, l2_sink = None\<rparr>],
       l2_loop = True, l2_submitted = []\<rparr> ''b''
     = (\<lparr>l2_sessions = [''a'' \<mapsto> \<lparr>l2_audio = [], l2_active = True, l2_sink = None\<rparr>],
       l2_loop = True, l2_submitted = []\<rparr>, False)
   \<and> (\<exists>svc1. GeminiLiveService_end_session TaskTimedOut
          (Initialised (snd (GeminiLiveService_create_session ''a'' None
             \<lparr>active_sessions = Map.empty, session_responses = Map.empty\<rparr>))) ''a''
          = (Initialised svc1, Returns None)
        \<and> active_sessions svc1 ''a'' = None
        \<and> session_responses svc1 ''a'' = None
        \<and> GeminiLiveService_end_session TaskFinished (Initialised svc1) ''a''
             = (Initialised svc1, Returns None))"
proof -
  have known: "active_sessions (snd (GeminiLiveService_create_session ''a'' None
             \<lparr>active_sessions = Map.empty, session_responses = Map.empty\<rparr>)) ''a''
      = Some \<lparr>sd_message_queue = [], sd_response_queue = [], sd_connected = False,
                  sd_task = True, sd_gemini_session = False, sd_sink = None,
                  sd_function_result_sent = False, sd_response_complete_sent = False\<rparr>"
    by (simp add: GeminiLiveService_create_session_def Let_def)
  have wait: "TaskTimedOut \<noteq> WaitCancelled" by simp
  have live2: "l2_sessions \<lparr>l2_sessions = [''a'' \<mapsto> \<lparr>l2_audio = [], l2_active = True, l2_sink = None\<rparr>],
       l2_loop = True, l2_submitted = []\<rparr> ''a'' = Some \<lparr>l2_audio = [], l2_active = True, l2_sink = None\<rparr>"
    by simp
  have live2_none: "l2_sessions \<lparr>l2_sessions = [''a'' \<mapsto> \<lparr>l2_audio = [], l2_active = True, l2_sink = None\<rparr>],
       l2_loop = True, l2_submitted = []\<rparr> ''b'' = None"
    by simp
  from end_session_twice
      [where s = "\<lparr>l2_sessions = [''a'' \<mapsto> \<lparr>l2_audio = [], l2_active = True, l2_sink = None\<rparr>],
             l2_loop = True, l2_submitted = []\<rparr>"
         and sid = "''a''"
         and session = "\<lparr>l2_audio = [], l2_active = True, l2_sink = None\<rparr>"
         and svc = "snd (GeminiLiveService_create_session ''a'' None
             \<lparr>active_sessions = Map.empty, session_responses = Map.empty\<rparr>)"
         and w = TaskTimedOut and w' = TaskFinished]
    known wait live2
  have first: "GeminiLive2Service_end_session
      \<lparr>l2_sessions = [''a'' \<mapsto> \<lparr>l2_audio = [], l2_active = True, l2_sink = None\<rparr>],
       l2_loop = True, l2_submitted = []\<rparr> ''a''
     = (\<lparr>l2_sessions = [''a'' \<mapsto> \<lparr>l2_audio = [], l2_active = False, l2_sink = None\<rparr>],
       l2_loop = True, l2_submitted = []\<rparr>, True)"
    and live: "\<exists>svc1. GeminiLiveService_end_session TaskTimedOut
          (Initialised (snd (GeminiLiveService_create_session ''a'' None
             \<lparr>active_sessions = Map.empty, session_responses = Map.empty\<rparr>))) ''a''
          = (Initialised svc1, Returns None)
        \<and> active_sessions svc1 ''a'' = None
        \<and> session_responses svc1 ''a'' = None
        \<and> GeminiLiveService_end_session TaskFinished (Initialised svc1) ''a''
             = (Initialised svc1, Returns None)"
    by simp_all
  from end_session_twice
      [where s = "\<lparr>l2_sessions = [''a'' \<mapsto> \<lparr>l2_audio = [], l2_active = True, l2_sink = None\<rparr>],
             l2_loop = True, l2_submitted = []\<rparr>"
         and sid = "''b''"]
    live2_none
  have second: "GeminiLive2Service_end_session
      \<lparr>l2_sessions = [''a'' \<mapsto> \<lparr>l2_audio = [], l2_active = True, l2_sink = None\<rparr>],
       l2_loop = True, l2_submitted = []\<rparr> ''b''
     = (\<lparr>l2_sessions = [''a'' \<mapsto> \<lparr>l2_audio = [], l2_active = True, l2_sink = None\<rparr>],
       l2_loop = True, l2_submitted = []\<rparr>, False)"
    by simp
  from first second live show ?thesis by blast
qed

section \<open>A failed handshake\<close>

text \<open>
  C3 as stated fails: with a failing connection \<^verbatim>\<open>create_session\<close> has returned the
  session id, and the registry still holds the entry afterwards.
\<close>

theorem handshake_failure_counterexample:
  "\<not> (active_sessions
         (session_background_task_connect ConnectFails
            (snd (GeminiLiveService_create_session ''u1'' None
                    \<lparr>active_sessions = Map.empty, session_responses = Map.empty\<rparr>))
            (fst (GeminiLiveService_create_session ''u1'' None
                    \<lparr>active_sessions = Map.empty, session_responses = Map.empty\<rparr>)))
         ''u1'' = None)
   \<and> fst (GeminiLiveService_create_session ''u1'' None
            \<lparr>active_sessions = Map.empty, session_responses = Map.empty\<rparr>) = ''u1''"
  by (simp add: GeminiLiveService_create_session_def session_background_task_connect_def Let_def)

text \<open>
  C3, amended. \<^verbatim>\<open>create_session\<close> returns the session id without waiting for the
  handshake. When the handshake then fails (the configuration or the connection raises),
  the registry keeps the entry of that id, marked not connected, and a message sent to
  the id through \<^verbatim>\<open>process_user_message_socketio\<close> is answered with the error event
  "Session not connected" and is not enqueued.
\<close>

theorem handshake_failure_keeps_entry:
  assumes "h \<noteq> ConnectOk"
    and "GeminiLiveService_create_session fresh given svc = (sid, svc1)"
    and "svc2 = session_background_task_connect h svc1 sid"
  shows "sid = (case given of None \<Rightarrow> fresh | Some g \<Rightarrow> g)
    \<and> (\<exists>session_data. active_sessions svc2 sid = Some session_data
          \<and> \<not> sd_connected session_data \<and> sd_message_queue session_data = [])
    \<and> process_user_message_socketio svc2 sid message_tuple client_sid
          = (svc2, [ErrorEvent ''Session not connected''], None)"
  using assms
  by (cases h)
     (auto simp: GeminiLiveService_create_session_def session_background_task_connect_def
        process_user_message_socketio_def Let_def)

theorem handshake_failure_keeps_entry_witness:
  "ConnectFails \<noteq> ConnectOk
   \<and> GeminiLiveService_create_session ''u1'' None
        \<lparr>active_sessions = Map.empty, session_responses = Map.empty\<rparr>
      = (''u1'', snd (GeminiLiveService_create_session ''u1'' None
        \<lparr>active_sessions = Map.empty, session_responses = Map.empty\<rparr>))
   \<and> process_user_message_socketio
        (session_background_task_connect ConnectFails
           (snd (GeminiLiveService_create_session ''u1'' None
              \<lparr>active_sessions = Map.empty, session_responses = Map.empty\<rparr>)) ''u1'')
        ''u1'' (Some ''hello'', None) ''c1''
      = (session_background_task_connect ConnectFails
           (snd (GeminiLiveService_create_session ''u1'' None
              \<lparr>active_sessions = Map.empty, session_responses = Map.empty\<rparr>)) ''u1'',
         [ErrorEvent ''Session not connected''], None)"
proof -
  have created: "GeminiLiveService_create_session ''u1'' None
        \<lparr>active_sessions = Map.empty, session_responses = Map.empty\<rparr>
      = (''u1'', snd (GeminiLiveService_create_session ''u1'' None
        \<lparr>active_sessions = Map.empty, session_responses = Map.empty\<rparr>))"
    by (simp add: GeminiLiveService_create_session_def Let_def)
  have failing: "ConnectFails \<noteq> ConnectOk" by simp
  from handshake_failure_keeps_entry [OF failing created refl, of "(Some ''hello'', None)" "''c1''"]
    created failing
  show ?thesis by blast
qed

section \<open>Polling for a response\<close>

text \<open>
  C9 as stated fails in its last part: a session that has just been created, whose
  response is still to be produced, has an entry in the response store (text empty, done
  false), so the endpoint answers 200 with that entry, while an unknown id gets 202
  "processing". The two are told apart.
\<close>

theorem polling_unknown_counterexample:
  "snd (get_live_response
          (Initialised (snd (GeminiLiveService_create_session ''u1'' None
             \<lparr>active_sessions = Map.empty, session_responses = Map.empty\<rparr>)))
          ''u1'')
     \<noteq> snd (get_live_response
          (Initialised (snd (GeminiLiveService_create_session ''u1'' None
             \<lparr>active_sessions = Map.empty, session_responses = Map.empty\<rparr>)))
          ''unknown'')"
  by (simp add: get_live_response_def get_current_response_def clear_response_def
      GeminiLiveService_create_session_def new_response_entry_def Let_def)

text \<open>Without the response store \<^verbatim>\<open>get_current_response\<close> raises and the endpoint answers 500.\<close>

lemma polling_without_store:
  "get_current_response (NoResponseStore sessions) sid = Raises ''AttributeError''
   \<and> get_live_response (NoResponseStore sessions) sid = (NoResponseStore sessions, 500, BodyServerError)"
  by (simp add: get_live_response_def get_current_response_def)

text \<open>
  C9, amended. In a service whose response store exists, for every session id without
  entry in the store (including ids that never existed) \<^verbatim>\<open>get_current_response\<close> returns
  \<^verbatim>\<open>None\<close> rather than raising, and the polling endpoint answers 202 "processing",
  leaving the service unchanged. A session whose response is still being produced has an
  entry: \<^verbatim>\<open>create_session\<close> stores one for the new id and the background task stores a
  fresh one for each message it takes from the queue; for an id with an entry the
  endpoint answers 200 with the entry. So 202 is the answer for exactly the ids without
  entry.
\<close>

theorem polling_unknown_session:
  "(session_responses svc sid = None \<longrightarrow>
      get_current_response (Initialised svc) sid = Returns None
      \<and> get_live_response (Initialised svc) sid = (Initialised svc, 202, BodyProcessing))
   \<and> (session_responses svc sid = Some r \<longrightarrow>
      get_current_response (Initialised svc) sid = Returns (Some r)
      \<and> snd (get_live_response (Initialised svc) sid) = (200, BodyResponse r))
   \<and> snd (get_live_response
            (Initialised (snd (GeminiLiveService_create_session fresh given svc)))
            (fst (GeminiLiveService_create_session fresh given svc)))
        = (200, BodyResponse new_response_entry)
   \<and> snd (get_live_response (Initialised (begin_response svc sid)) sid)
        = (200, BodyResponse new_response_entry)"
  by (simp add: get_live_response_def get_current_response_def clear_response_def
      GeminiLiveService_create_session_def begin_response_def Let_def)

theorem polling_unknown_session_witness:
  "get_live_response
      (Initialised (snd (GeminiLiveService_create_session ''u1'' None
         \<lparr>active_sessions = Map.empty, session_responses = Map.empty\<rparr>)))
      ''unknown''
     = (Initialised (snd (GeminiLiveService_create_session ''u1'' None
         \<lparr>active_sessions = Map.empty, session_responses = Map.empty\<rparr>)),
        202, BodyProcessing)
   \<and> snd (get_live_response
      (Initialised (snd (GeminiLiveService_create_session ''u1'' None
         \<lparr>active_sessions = Map.empty, session_responses = Map.empty\<rparr>)))
      ''u1'') = (200, BodyResponse new_response_entry)"
proof -
  have unknown: "session_responses (snd (GeminiLiveService_create_session ''u1'' None
         \<lparr>active_sessions = Map.empty, session_responses = Map.empty\<rparr>)) ''unknown'' = None"
    by (simp add: GeminiLiveService_create_session_def Let_def)
  have known: "session_responses (snd (GeminiLiveService_create_session ''u1'' None
         \<lparr>active_sessions = Map.empty, session_responses = Map.empty\<rparr>)) ''u1''
       = Some new_response_entry"
    by (simp add: GeminiLiveService_create_session_def Let_def)
  from polling_unknown_session
      [where svc = "snd (GeminiLiveService_create_session ''u1'' None
         \<lparr>active_sessions = Map.empty, session_responses = Map.empty\<rparr>)"
         and sid = "''unknown''"] unknown
  have a: "get_live_response
      (Initialised (snd (GeminiLiveService_create_session ''u1'' None
         \<lparr>active_sessions = Map.empty, session_responses = Map.empty\<rparr>)))
      ''unknown''
     = (Initialised (snd (GeminiLiveService_create_session ''u1'' None
         \<lparr>active_sessions = Map.empty, session_responses = Map.empty\<rparr>)),
        202, BodyProcessing)"
    by simp
  from polling_unknown_session
      [where svc = "snd (GeminiLiveService_create_session ''u1'' None
         \<lparr>active_sessions = Map.empty, session_responses = Map.empty\<rparr>)"
         and sid = "''u1''" and r = new_response_entry] known
  have b: "snd (get_live_response
      (Initialised (snd (GeminiLiveService_create_session ''u1'' None
         \<lparr>active_sessions = Map.empty, session_responses = Map.empty\<rparr>)))
      ''u1'') = (200, BodyResponse new_response_entry)"
    by simp
  from a b show ?thesis by blast
qed

section \<open>The Tool Executor never raises\<close>

lemma format_search_results_at_most_5: "length (format_search_results results) \<le> 5"
  by (cases results) (simp_all add: format_search_results_def)

text \<open>
  C8. For a function name other than "search\_products", \<^verbatim>\<open>_execute_function\<close> returns
  the error value naming the unknown function; it returns a value on every input; and a
  failure of the search itself, a raised exception or a reply with a status other than
  200, comes back as an error value.
\<close>

theorem execute_function_structured_errors:
  "(function_name \<noteq> ''search_products'' \<longrightarrow>
      execute_function search function_name function_args
        = Returns (FError (''Unknown function: '' @ function_name)))
   \<and> (\<exists>r. execute_function search function_name function_args = Returns r)
   \<and> (dict_get function_args ''query'' = Some query \<and> query \<noteq> [] \<and> search query = RequestRaises e \<longrightarrow>
      execute_function search ''search_products'' function_args
        = Returns (FError (''Error executing search: '' @ e)))
   \<and> (dict_get function_args ''query'' = Some query \<and> query \<noteq> []
        \<and> search query = HttpReply status error_text data \<and> status \<noteq> 200 \<longrightarrow>
      execute_function search ''search_products'' function_args
        = Returns (FError (''Search failed with status '' @ str_nat status @ '': '' @ error_text)))"
  by (auto simp: execute_function_def search_request_def split: option.splits http_reply.splits)

theorem execute_function_structured_errors_witness:
  "execute_function (\<lambda>q. RequestRaises ''connection refused'') ''get_weather'' [(''city'', ''Oslo'')]
     = Returns (FError ''Unknown function: get_weather'')
   \<and> execute_function (\<lambda>q. RequestRaises ''connection refused'') ''search_products'' [(''query'', ''jacket'')]
     = Returns (FError ''Error executing search: connection refused'')
   \<and> execute_function (\<lambda>q. HttpReply 500 ''Search failed'' None) ''search_products'' [(''query'', ''jacket'')]
     = Returns (FError (''Search failed with status '' @ str_nat 500 @ '': Search failed''))"
  using execute_function_structured_errors
      [of "''get_weather''" "\<lambda>q. RequestRaises ''connection refused''" "[(''city'', ''Oslo'')]"]
    execute_function_structured_errors
      [of "''search_products''" "\<lambda>q. RequestRaises ''connection refused''" "[(''query'', ''jacket'')]"
          "''jacket''" "''connection refused''"]
    execute_function_structured_errors
      [of "''search_products''" "\<lambda>q. HttpReply 500 ''Search failed'' None" "[(''query'', ''jacket'')]"
          "''jacket''" _ 500 "''Search failed''" None]
  by (simp add: dict_get_def)

section \<open>Chunking of the synthesized audio\<close>

lemma concat_audio_chunks: "concat (audio_chunks i audio_bytes) = drop i audio_bytes"
proof (induction i audio_bytes rule: audio_chunks.induct)
  case (1 i audio_bytes)
  show ?case
  proof (cases "i < length audio_bytes")
    case True
    have "take chunk_size (drop i audio_bytes) @ drop (i + chunk_size) audio_bytes = drop i audio_bytes"
      by (metis append_take_drop_id drop_drop add.commute)
    with True 1 show ?thesis
      by (simp add: audio_chunks.simps [of i])
  next
    case False
    then show ?thesis by (simp add: audio_chunks.simps [of i])
  qed
qed

lemma length_audio_chunks:
  "length (audio_chunks i audio_bytes) = (length audio_bytes - i + 4095) div 4096"
proof (induction i audio_bytes rule: audio_chunks.induct)
  case (1 i audio_bytes)
  show ?case
  proof (cases "i < length audio_bytes")
    case True
    then have "length (audio_chunks i audio_bytes)
        = Suc ((length audio_bytes - (i + 4096) + 4095) div 4096)"
      using 1 by (simp add: audio_chunks.simps [of i] chunk_size_def)
    also have "\<dots> = (length audio_bytes - i + 4095) div 4096"
      using True by (cases "length audio_bytes - i < 4096") (auto simp: div_add_self2 [symmetric] le_div_geq div_eq_0_iff)
    finally show ?thesis .
  next
    case False
    then show ?thesis by (simp add: audio_chunks.simps [of i])
  qed
qed

lemma audio_chunks_bounded: "chunk \<in> set (audio_chunks i audio_bytes) \<Longrightarrow> length chunk \<le> 4096"
proof (induction i audio_bytes rule: audio_chunks.induct)
  case (1 i audio_bytes)
  then show ?case
    by (cases "i < length audio_bytes") (auto simp: audio_chunks.simps [of i] chunk_size_def)
qed

text \<open>
  C7. When the synthesis succeeds with the bytes \<open>B\<close>, the events are one audio chunk
  event for each of the \<open>ceil(len(B)/4096)\<close> chunks, in order, followed by one end of
  stream event; the chunks have at most 4096 bytes each and concatenate to \<open>B\<close>. When the
  synthesis raises, the exception is caught: the function returns normally and nothing
  is emitted.
\<close>

theorem stream_tts_audio_chunks:
  "(tts_client = Some synthesize_speech \<and> text \<noteq> [] \<and> synthesize_speech text = Returns B \<longrightarrow>
      (\<exists>chunks.
          stream_tts_audio tts_client b64encode text
            = (map (\<lambda>chunk. ReceiveAudioChunk (b64encode chunk)) chunks @ [AudioStreamEnd], Returns ())
          \<and> length chunks = (length B + 4095) div 4096
          \<and> (\<forall>chunk \<in> set chunks. length chunk \<le> 4096)
          \<and> concat chunks = B))
   \<and> (tts_client = Some synthesize_speech \<and> text \<noteq> [] \<and> synthesize_speech text = Raises e \<longrightarrow>
      stream_tts_audio tts_client b64encode text = ([], Returns ()))"
proof (intro conjI impI)
  assume ok: "tts_client = Some synthesize_speech \<and> text \<noteq> [] \<and> synthesize_speech text = Returns B"
  have "stream_tts_audio tts_client b64encode text
      = (map (\<lambda>chunk. ReceiveAudioChunk (b64encode chunk)) (audio_chunks 0 B) @ [AudioStreamEnd], Returns ())"
    using ok by (simp add: stream_tts_audio_def stream_tts_audio_try_def)
  moreover have "length (audio_chunks 0 B) = (length B + 4095) div 4096"
    by (simp add: length_audio_chunks)
  moreover have "\<forall>chunk \<in> set (audio_chunks 0 B). length chunk \<le> 4096"
    using audio_chunks_bounded by blast
  moreover have "concat (audio_chunks 0 B) = B"
    by (simp add: concat_audio_chunks)
  ultimately show "\<exists>chunks.
          stream_tts_audio tts_client b64encode text
            = (map (\<lambda>chunk. ReceiveAudioChunk (b64encode chunk)) chunks @ [AudioStreamEnd], Returns ())
          \<and> length chunks = (length B + 4095) div 4096
          \<and> (\<forall>chunk \<in> set chunks. length chunk \<le> 4096)
          \<and> concat chunks = B"
    by blast
next
  assume "tts_client = Some synthesize_speech \<and> text \<noteq> [] \<and> synthesize_speech text = Raises e"
  then show "stream_tts_audio tts_client b64encode text = ([], Returns ())"
    by (simp add: stream_tts_audio_def stream_tts_audio_try_def)
qed

theorem stream_tts_audio_chunks_witness:
  "(\<exists>chunks.
      stream_tts_audio (Some (\<lambda>t. Returns [1, 2, 3])) (\<lambda>chunk. map (\<lambda>b. char_of (unat b)) chunk) ''Hi''
        = (map (\<lambda>chunk. ReceiveAudioChunk (map (\<lambda>b. char_of (unat b)) chunk)) chunks @ [AudioStreamEnd],
           Returns ())
      \<and> length chunks = 1
      \<and> (\<forall>chunk \<in> set chunks. length chunk \<le> 4096)
      \<and> concat chunks = [1, 2, 3 :: byte])
   \<and> stream_tts_audio (Some (\<lambda>t. Raises ''quota exceeded'')) (\<lambda>chunk. map (\<lambda>b. char_of (unat b)) chunk) ''Hi''
        = ([], Returns ())"
  using stream_tts_audio_chunks
      [of "Some (\<lambda>t. Returns [1, 2, 3])" "\<lambda>t. Returns [1, 2, 3]" "''Hi''" "[1, 2, 3]"
          "\<lambda>chunk. map (\<lambda>b. char_of (unat b)) chunk"]
    stream_tts_audio_chunks
      [of "Some (\<lambda>t. Raises ''quota exceeded'')" "\<lambda>t. Raises ''quota exceeded''" "''Hi''" _
          "\<lambda>chunk. map (\<lambda>b. char_of (unat b)) chunk" "''quota exceeded''"]
  by simp

section \<open>Only the first function call of a frame\<close>







section \<open>The completion event of a turn\<close>

lemma tool_call_branch_leaves: "tool_call_branch env t fcs \<noteq> (t', Returns False)"
  by (auto simp: tool_call_branch_def Let_def
      split: option.splits list.splits outcome.splits function_response.splits if_splits)

lemma tool_call_branch_events:
  assumes "tool_call_branch env t fcs = (t', out)" and "\<not> sd_response_complete_sent (t_session t)"
  shows "(t_events t' = t_events t \<and> \<not> sd_response_complete_sent (t_session t'))
    \<or> (\<exists>name items. t_events t' = t_events t @ [FunctionResult name items, ResponseComplete ''Here you go!'']
          \<and> sd_response_complete_sent (t_session t') \<and> out = Returns True)"
  using assms
  by (auto simp: tool_call_branch_def Let_def emit_def send_def
      split: option.splits list.splits outcome.splits function_response.splits if_splits)

lemma end_of_turn_branch_events:
  "filter is_function_result (t_events (end_of_turn_branch t)) = filter is_function_result (t_events t)
   \<and> sd_response_complete_sent (t_session (end_of_turn_branch t)) = sd_response_complete_sent (t_session t)"
  by (simp add: end_of_turn_branch_def emit_def Let_def)

lemma text_part_events:
  "filter is_complete (t_events (text_part t response)) = filter is_complete (t_events t)
   \<and> filter is_function_result (t_events (text_part t response)) = filter is_function_result (t_events t)
   \<and> t_session (text_part t response) = t_session t"
  by (simp add: text_part_def emit_def Let_def split: option.splits)

lemma handle_response_text_part:
  "handle_response env t response =
     (case r_tool_call response of
        Some function_calls \<Rightarrow> tool_call_branch env (text_part t response) function_calls
      | None \<Rightarrow>
          if r_end_of_turn response then (end_of_turn_branch (text_part t response), Returns True)
          else (text_part t response, Returns False))"
  unfolding handle_response_def text_part_def Let_def by (rule refl)

lemma handle_response_continue:
  assumes "handle_response env t response = (t', Returns False)"
  shows "filter is_complete (t_events t') = filter is_complete (t_events t)
    \<and> filter is_function_result (t_events t') = filter is_function_result (t_events t)
    \<and> t_session t' = t_session t"
proof (cases "r_tool_call response")
  case None
  with assms have "t' = text_part t response"
    by (simp add: handle_response_text_part split: if_splits)
  then show ?thesis by (simp add: text_part_events)
next
  case (Some function_calls)
  with assms have "tool_call_branch env (text_part t response) function_calls = (t', Returns False)"
    by (simp add: handle_response_text_part)
  then show ?thesis by (simp add: tool_call_branch_leaves)
qed

lemma handle_response_leave:
  assumes step: "handle_response env t response = (t', out)"
    and flag: "\<not> sd_response_complete_sent (t_session t)"
    and quiet: "filter is_complete (t_events t) = []" "filter is_function_result (t_events t) = []"
    and found: "filter is_function_result (t_events t') \<noteq> []"
  shows "filter is_complete (t_events t') = [ResponseComplete ''Here you go!'']
    \<and> sd_response_complete_sent (t_session t') \<and> out = Returns True"
proof (cases "r_tool_call response")
  case None
  with step have "t' = end_of_turn_branch (text_part t response) \<or> t' = text_part t response"
    by (auto simp: handle_response_text_part split: if_splits)
  with quiet have "filter is_function_result (t_events t') = []"
    by (auto simp: end_of_turn_branch_events text_part_events)
  with found show ?thesis by simp
next
  case (Some function_calls)
  with step have branch: "tool_call_branch env (text_part t response) function_calls = (t', out)"
    by (simp add: handle_response_text_part)
  from flag have "\<not> sd_response_complete_sent (t_session (text_part t response))"
    by (simp add: text_part_events)
  from tool_call_branch_events [OF branch this] quiet found show ?thesis
    by (auto simp: text_part_events)
qed

lemma receive_loop_function_result:
  assumes "receive_loop env t stream = (t', out)"
    and "\<not> sd_response_complete_sent (t_session t)"
    and "filter is_complete (t_events t) = []" and "filter is_function_result (t_events t) = []"
    and "filter is_function_result (t_events t') \<noteq> []"
  shows "filter is_complete (t_events t') = [ResponseComplete ''Here you go!'']
    \<and> sd_response_complete_sent (t_session t') \<and> out = Returns ()"
  using assms
proof (induction stream arbitrary: t)
  case Nil
  then show ?case by simp
next
  case (Cons response rest)
  obtain t1 out1 where step: "handle_response env t response = (t1, out1)"
    by (cases "handle_response env t response")
  show ?case
  proof (cases "out1 = Returns False")
    case True
    with step Cons.prems(1) have rest: "receive_loop env t1 rest = (t', out)"
      by simp
    from step True have same: "filter is_complete (t_events t1) = filter is_complete (t_events t)
        \<and> filter is_function_result (t_events t1) = filter is_function_result (t_events t)
        \<and> t_session t1 = t_session t"
      using handle_response_continue by blast
    show ?thesis
      using Cons.IH [OF rest] same Cons.prems by simp
  next
    case False
    with step Cons.prems(1) have left: "t' = t1"
      by (cases out1) (auto split: if_splits)
    from handle_response_leave [OF step Cons.prems(2) Cons.prems(3) Cons.prems(4)] left Cons.prems(5)
    have "filter is_complete (t_events t') = [ResponseComplete ''Here you go!'']
        \<and> sd_response_complete_sent (t_session t') \<and> out1 = Returns True"
      by simp
    moreover from this step Cons.prems(1) have "out = Returns ()" by simp
    ultimately show ?thesis by simp
  qed
qed


lemma tts_no_complete: "filter is_complete (fst (stream_tts_audio c enc text)) = []"
  by (auto simp: stream_tts_audio_def stream_tts_audio_try_def filter_empty_conv
      split: option.splits outcome.splits)

lemma tts_no_function_result: "filter is_function_result (fst (stream_tts_audio c enc text)) = []"
  by (auto simp: stream_tts_audio_def stream_tts_audio_try_def filter_empty_conv
      split: option.splits outcome.splits)

lemma finish_turn_function_results:
  "filter is_function_result (t_events (fst (finish_turn env b t))) = filter is_function_result (t_events t)"
  by (simp add: finish_turn_def emit_def Let_def tts_no_function_result split: option.splits)

lemma finish_turn_flag_set:
  "sd_response_complete_sent (t_session t) \<Longrightarrow> t_events (fst (finish_turn env b t)) = t_events t"
  by (simp add: finish_turn_def Let_def split: option.splits)

lemma run_turn_function_result:
  assumes run: "run_turn env b t0 stream = (t, ex)"
    and flag: "\<not> sd_response_complete_sent (t_session t0)"
    and quiet: "t_events t0 = []"
    and found: "filter is_function_result (t_events t) \<noteq> []"
  shows "filter is_complete (t_events t) = [ResponseComplete ''Here you go!'']"
proof -
  obtain t' out where loop: "receive_loop env t0 stream = (t', out)"
    by (cases "receive_loop env t0 stream")
  from quiet have quiet': "filter is_complete (t_events t0) = []" "filter is_function_result (t_events t0) = []"
    by simp_all
  show ?thesis
  proof (cases out)
    case (Raises e)
    with run loop have "t = t'" by (simp add: run_turn_def)
    with receive_loop_function_result [OF loop flag quiet'] found show ?thesis by simp
  next
    case (Returns u)
    with run loop have fin: "t = fst (finish_turn env (b \<or> stream \<noteq> []) t')"
      by (simp add: run_turn_def)
    with found have "filter is_function_result (t_events t') \<noteq> []"
      by (simp add: finish_turn_function_results)
    from receive_loop_function_result [OF loop flag quiet' this]
    have "filter is_complete (t_events t') = [ResponseComplete ''Here you go!'']"
      and "sd_response_complete_sent (t_session t')"
      by simp_all
    with fin show ?thesis by (simp add: finish_turn_flag_set)
  qed
qed

lemma process_message_cases:
  assumes "process_message env b session_data queued stream = (t, ex)"
  shows "filter is_function_result (t_events t) = []
    \<or> (\<exists>t0. t_events t0 = [] \<and> t_session t0 = session_data \<and> run_turn env b t0 stream = (t, ex))"
  using assms
  by (auto simp: process_message_def start_turn_def emit_def send_def Let_def
      split: if_splits option.splits prod.splits)

text \<open>
  C1, evaluated where it fails. A turn with a sink, one text fragment and then an end of
  turn marker: the branch for the marker emits \<^verbatim>\<open>response_complete\<close> without consulting
  or setting the flag \<^verbatim>\<open>_response_complete_sent\<close>, and the statements after the loop emit
  it again. The event is emitted twice.
\<close>

theorem response_complete_twice_at_end_of_turn:
  "filter is_complete (t_events (fst (process_message
      \<lparr>e_search = (\<lambda>q. RequestRaises ''unused''), e_tts_client = None,
        e_b64encode = (\<lambda>b. []), e_b64decode = (\<lambda>s. None), e_rnd = (\<lambda>i. 1999)\<rparr>
      True
      \<lparr>sd_message_queue = [], sd_response_queue = [], sd_connected = True,
        sd_task = True, sd_gemini_session = True, sd_sink = Some ''c1'',
        sd_function_result_sent = False, sd_response_complete_sent = False\<rparr>
      (QTuple (Some ''hello'') None)
      [\<lparr>r_text = Some ''Hi'', r_tool_call = None, r_end_of_turn = False\<rparr>,
       \<lparr>r_text = None, r_tool_call = None, r_end_of_turn = True\<rparr>])))
    = [ResponseComplete ''Hi'', ResponseComplete ''Hi'']"
  by (simp add: process_message_def unpack_def start_turn_def send_def emit_def run_turn_def
      handle_response_def end_of_turn_branch_def finish_turn_def stream_tts_audio_def strip_def
      is_space_def sink_truthy_def new_response_entry_def Let_def)

text \<open>
  C5 as stated fails in its second part: in a turn where text had accumulated before the
  tool call, the completion event carries the fallback text and not the accumulated text.
\<close>

theorem tool_result_with_text_counterexample:
  "t_accumulated_text (fst (process_message
      \<lparr>e_search = (\<lambda>q. HttpReply 200 [] (Some [[(''id'', ''p1'')], [(''id'', ''p2'')]])),
        e_tts_client = None,
        e_b64encode = (\<lambda>b. []), e_b64decode = (\<lambda>s. None), e_rnd = (\<lambda>i. 1999)\<rparr>
      True
      \<lparr>sd_message_queue = [], sd_response_queue = [], sd_connected = True,
        sd_task = True, sd_gemini_session = True, sd_sink = Some ''c1'',
        sd_function_result_sent = False, sd_response_complete_sent = False\<rparr>
      (QTuple (Some ''find me a blue jacket'') None)
      [\<lparr>r_text = Some ''Sure'',
        r_tool_call = Some [\<lparr>fc_id = ''call-1'', fc_name = ''search_products'', fc_args = [(''query'', ''blue jacket'')]\<rparr>],
        r_end_of_turn = False\<rparr>])) = ''Sure''
   \<and> filter is_complete (t_events (fst (process_message
      \<lparr>e_search = (\<lambda>q. HttpReply 200 [] (Some [[(''id'', ''p1'')], [(''id'', ''p2'')]])),
        e_tts_client = None,
        e_b64encode = (\<lambda>b. []), e_b64decode = (\<lambda>s. None), e_rnd = (\<lambda>i. 1999)\<rparr>
      True
      \<lparr>sd_message_queue = [], sd_response_queue = [], sd_connected = True,
        sd_task = True, sd_gemini_session = True, sd_sink = Some ''c1'',
        sd_function_result_sent = False, sd_response_complete_sent = False\<rparr>
      (QTuple (Some ''find me a blue jacket'') None)
      [\<lparr>r_text = Some ''Sure'',
        r_tool_call = Some [\<lparr>fc_id = ''call-1'', fc_name = ''search_products'', fc_args = [(''query'', ''blue jacket'')]\<rparr>],
        r_end_of_turn = False\<rparr>]))) = [ResponseComplete ''Here you go!'']"
  by (simp add: process_message_def unpack_def start_turn_def send_def emit_def run_turn_def
      handle_response_def tool_call_branch_def execute_function_def search_request_def dict_get_def
      finish_turn_def sink_truthy_def new_response_entry_def enrich_def Let_def)

text \<open>
  C5, amended. In every turn that starts with the completion flag cleared, as every
  turn does, and in which a function result event was emitted, exactly one completion
  event is emitted and it carries the text "Here you go!", whether the accumulated text
  is empty or not.
\<close>

theorem tool_result_fallback_text:
  assumes "\<not> sd_response_complete_sent session_data"
    and "process_message env response_bound session_data queued stream = (t, ex)"
    and "\<exists>e \<in> set (t_events t). is_function_result e"
  shows "filter is_complete (t_events t) = [ResponseComplete ''Here you go!'']"
proof -
  from assms(3) have found: "filter is_function_result (t_events t) \<noteq> []"
    by (simp add: filter_empty_conv)
  with process_message_cases [OF assms(2)]
  obtain t0 where "t_events t0 = []" and "t_session t0 = session_data"
    and "run_turn env response_bound t0 stream = (t, ex)"
    by blast
  with assms(1) found show ?thesis
    using run_turn_function_result by simp
qed

theorem tool_result_fallback_text_witness:
  "\<not> sd_response_complete_sent
        \<lparr>sd_message_queue = [], sd_response_queue = [], sd_connected = True,
        sd_task = True, sd_gemini_session = True, sd_sink = Some ''c1'',
        sd_function_result_sent = False, sd_response_complete_sent = False\<rparr>
   \<and> (\<exists>e \<in> set (t_events (fst (process_message
      \<lparr>e_search = (\<lambda>q. HttpReply 200 [] (Some [[(''id'', ''p1'')], [(''id'', ''p2'')]])),
        e_tts_client = None,
        e_b64encode = (\<lambda>b. []), e_b64decode = (\<lambda>s. None), e_rnd = (\<lambda>i. 1999)\<rparr>
      True
      \<lparr>sd_message_queue = [], sd_response_queue = [], sd_connected = True,
        sd_task = True, sd_gemini_session = True, sd_sink = Some ''c1'',
        sd_function_result_sent = False, sd_response_complete_sent = False\<rparr>
      (QTuple (Some ''find me a blue jacket'') None)
      [\<lparr>r_text = None,
        r_tool_call = Some [\<lparr>fc_id = ''call-1'', fc_name = ''search_products'', fc_args = [(''query'', ''blue jacket'')]\<rparr>],
        r_end_of_turn = False\<rparr>]))). is_function_result e)
   \<and> filter is_complete (t_events (fst (process_message
      \<lparr>e_search = (\<lambda>q. HttpReply 200 [] (Some [[(''id'', ''p1'')], [(''id'', ''p2'')]])),
        e_tts_client = None,
        e_b64encode = (\<lambda>b. []), e_b64decode = (\<lambda>s. None), e_rnd = (\<lambda>i. 1999)\<rparr>
      True
      \<lparr>sd_message_queue = [], sd_response_queue = [], sd_connected = True,
        sd_task = True, sd_gemini_session = True, sd_sink = Some ''c1'',
        sd_function_result_sent = False, sd_response_complete_sent = False\<rparr>
      (QTuple (Some ''find me a blue jacket'') None)
      [\<lparr>r_text = None,
        r_tool_call = Some [\<lparr>fc_id = ''call-1'', fc_name = ''search_products'', fc_args = [(''query'', ''blue jacket'')]\<rparr>],
        r_end_of_turn = False\<rparr>])))
        = [ResponseComplete ''Here you go!'']"
proof -
  have flag: "\<not> sd_response_complete_sent
        \<lparr>sd_message_queue = [], sd_response_queue = [], sd_connected = True,
        sd_task = True, sd_gemini_session = True, sd_sink = Some ''c1'',
        sd_function_result_sent = False, sd_response_complete_sent = False\<rparr>"
    by simp
  have pair: "(process_message
      \<lparr>e_search = (\<lambda>q. HttpReply 200 [] (Some [[(''id'', ''p1'')], [(''id'', ''p2'')]])),
        e_tts_client = None,
        e_b64encode = (\<lambda>b. []), e_b64decode = (\<lambda>s. None), e_rnd = (\<lambda>i. 1999)\<rparr>
      True
      \<lparr>sd_message_queue = [], sd_response_queue = [], sd_connected = True,
        sd_task = True, sd_gemini_session = True, sd_sink = Some ''c1'',
        sd_function_result_sent = False, sd_response_complete_sent = False\<rparr>
      (QTuple (Some ''find me a blue jacket'') None)
      [\<lparr>r_text = None,
        r_tool_call = Some [\<lparr>fc_id = ''call-1'', fc_name = ''search_products'', fc_args = [(''query'', ''blue jacket'')]\<rparr>],
        r_end_of_turn = False\<rparr>])
      = (fst (process_message
      \<lparr>e_search = (\<lambda>q. HttpReply 200 [] (Some [[(''id'', ''p1'')], [(''id'', ''p2'')]])),
        e_tts_client = None,
        e_b64encode = (\<lambda>b. []), e_b64decode = (\<lambda>s. None), e_rnd = (\<lambda>i. 1999)\<rparr>
      True
      \<lparr>sd_message_queue = [], sd_response_queue = [], sd_connected = True,
        sd_task = True, sd_gemini_session = True, sd_sink = Some ''c1'',
        sd_function_result_sent = False, sd_response_complete_sent = False\<rparr>
      (QTuple (Some ''find me a blue jacket'') None)
      [\<lparr>r_text = None,
        r_tool_call = Some [\<lparr>fc_id = ''call-1'', fc_name = ''search_products'', fc_args = [(''query'', ''blue jacket'')]\<rparr>],
        r_end_of_turn = False\<rparr>]),
         snd (process_message
      \<lparr>e_search = (\<lambda>q. HttpReply 200 [] (Some [[(''id'', ''p1'')], [(''id'', ''p2'')]])),
        e_tts_client = None,
        e_b64encode = (\<lambda>b. []), e_b64decode = (\<lambda>s. None), e_rnd = (\<lambda>i. 1999)\<rparr>
      True
      \<lparr>sd_message_queue = [], sd_response_queue = [], sd_connected = True,
        sd_task = True, sd_gemini_session = True, sd_sink = Some ''c1'',
        sd_function_result_sent = False, sd_response_complete_sent = False\<rparr>
      (QTuple (Some ''find me a blue jacket'') None)
      [\<lparr>r_text = None,
        r_tool_call = Some [\<lparr>fc_id = ''call-1'', fc_name = ''search_products'', fc_args = [(''query'', ''blue jacket'')]\<rparr>],
        r_end_of_turn = False\<rparr>]))"
    by simp
  have found: "\<exists>e \<in> set (t_events (fst (process_message
      \<lparr>e_search = (\<lambda>q. HttpReply 200 [] (Some [[(''id'', ''p1'')], [(''id'', ''p2'')]])),
        e_tts_client = None,
        e_b64encode = (\<lambda>b. []), e_b64decode = (\<lambda>s. None), e_rnd = (\<lambda>i. 1999)\<rparr>
      True
      \<lparr>sd_message_queue = [], sd_response_queue = [], sd_connected = True,
        sd_task = True, sd_gemini_session = True, sd_sink = Some ''c1'',
        sd_function_result_sent = False, sd_response_complete_sent = False\<rparr>
      (QTuple (Some ''find me a blue jacket'') None)
      [\<lparr>r_text = None,
        r_tool_call = Some [\<lparr>fc_id = ''call-1'', fc_name = ''search_products'', fc_args = [(''query'', ''blue jacket'')]\<rparr>],
        r_end_of_turn = False\<rparr>]))). is_function_result e"
    by (simp add: process_message_def unpack_def start_turn_def send_def emit_def run_turn_def
        handle_response_def tool_call_branch_def execute_function_def search_request_def dict_get_def
        finish_turn_def sink_truthy_def new_response_entry_def enrich_def Let_def)
  from tool_result_fallback_text [OF flag pair found] flag found show ?thesis by blast
qed

section \<open>The search results sent back to the remote service\<close>

text \<open>
  C4, evaluated where it fails. The search answers with six products; the message loop
  sends the whole reply back as the function response, six products, while
  \<^verbatim>\<open>send_user_input_to_session\<close> cuts the list to five (lemma
  \<open>format_search_results_at_most_5\<close>).
\<close>

theorem search_results_not_limited:
  "t_sent (fst (process_message
      \<lparr>e_search = (\<lambda>q. HttpReply 200 []
          (Some [[(''id'', ''p1'')], [(''id'', ''p2'')], [(''id'', ''p3'')],
                 [(''id'', ''p4'')], [(''id'', ''p5'')], [(''id'', ''p6'')]])),
        e_tts_client = None,
        e_b64encode = (\<lambda>b. []), e_b64decode = (\<lambda>s. None), e_rnd = (\<lambda>i. 1999)\<rparr>
      True
      \<lparr>sd_message_queue = [], sd_response_queue = [], sd_connected = True,
        sd_task = True, sd_gemini_session = True, sd_sink = Some ''c1'',
        sd_function_result_sent = False, sd_response_complete_sent = False\<rparr>
      (QTuple (Some ''find me a jacket'') None)
      [\<lparr>r_text = None,
        r_tool_call = Some [\<lparr>fc_id = ''call-1'', fc_name = ''search_products'', fc_args = [(''query'', ''jacket'')]\<rparr>],
        r_end_of_turn = False\<rparr>]))
    = [SendInput (Text ''find me a jacket''),
       SendFunctionResponse ''call-1'' ''search_products''
         (FData (Some [[(''id'', ''p1'')], [(''id'', ''p2'')], [(''id'', ''p3'')],
                       [(''id'', ''p4'')], [(''id'', ''p5'')], [(''id'', ''p6'')]]))]
   \<and> length [[(''id'', ''p1'')], [(''id'', ''p2'')], [(''id'', ''p3'')],
               [(''id'', ''p4'')], [(''id'', ''p5'')], [(''id'', ''p6'') :: string \<times> string]] = 6"
  by (simp add: process_message_def unpack_def start_turn_def send_def emit_def run_turn_def
      handle_response_def tool_call_branch_def execute_function_def search_request_def dict_get_def
      finish_turn_def sink_truthy_def new_response_entry_def Let_def)

end
